theory Spec2Isabelle
  imports Complex_Main "HOL-Library.Word"
begin

unbundle bit_operations_syntax

section \<open>The full-screen triangle vertex shader\<close>

text \<open>
  The source is \<^verbatim>\<open>src/shaders/full_screen.vert.cxx\<close>:
  \<^verbatim>\<open>
  [[spirv::out(0)]]
  vec2 out_uv;

  [[spirv::vert]]
  void main()
  {
      out_uv = vec2((glvert_VertexIndex << 1) & 2, glvert_VertexIndex & 2);
      glvert_Output.Position = vec4(out_uv * 2.0f + -1., 0., 1.);
  }
  \<close>
  The built-in \<^verbatim>\<open>glvert_VertexIndex\<close> is a 32-bit integer, \<^verbatim>\<open>out_uv\<close> is a shader
  output variable and \<^verbatim>\<open>glvert_Output\<close> is the built-in per-vertex output block.
\<close>

subsection \<open>Numbers\<close>

text \<open>
  The vertex index is a 32-bit machine integer: \<open><<\<close> is \<^const>\<open>push_bit\<close> on
  \<^typ>\<open>32 word\<close> (bits shifted past bit 31 are lost) and \<open>&\<close> is \<open>AND\<close>.

  A float is modelled by the real number it denotes. Every number this shader computes
  is an integer between \<open>-1\<close> and \<open>4\<close> (lemma \<open>main_values_small\<close> below), and
  binary32 and binary64 both represent every integer of magnitude up to \<open>2 ^ 24\<close>, so
  the conversion, the product by \<^verbatim>\<open>2.0f\<close> and the sum with the double literal \<^verbatim>\<open>-1.\<close>
  are exact in either format, and no rounding is lost by the model.
\<close>

type_synonym int32 = "32 word"
type_synonym float = real

text \<open>The conversion of a (signed) 32-bit integer to a float.\<close>

definition float_of_int32 :: "int32 \<Rightarrow> float" where
  "float_of_int32 i = real_of_int (sint i)"

subsection \<open>Vectors\<close>

datatype vec2 = Vec2 (vec2_x: float) (vec2_y: float)

datatype vec4 = Vec4 (vec4_x: float) (vec4_y: float) (vec4_z: float) (vec4_w: float)

text \<open>\<^verbatim>\<open>vec2(int, int)\<close>: each integer component is converted to a float.\<close>

definition vec2_of_ints :: "int32 \<Rightarrow> int32 \<Rightarrow> vec2" where
  "vec2_of_ints a b = Vec2 (float_of_int32 a) (float_of_int32 b)"

text \<open>\<^verbatim>\<open>vec2 * float\<close> and \<^verbatim>\<open>vec2 + scalar\<close> work on each component.\<close>

definition vec2_mul_scalar :: "vec2 \<Rightarrow> float \<Rightarrow> vec2" where
  "vec2_mul_scalar v k = Vec2 (vec2_x v * k) (vec2_y v * k)"

definition vec2_add_scalar :: "vec2 \<Rightarrow> float \<Rightarrow> vec2" where
  "vec2_add_scalar v k = Vec2 (vec2_x v + k) (vec2_y v + k)"

text \<open>\<^verbatim>\<open>vec4(vec2, float, float)\<close>.\<close>

definition vec4_of_vec2 :: "vec2 \<Rightarrow> float \<Rightarrow> float \<Rightarrow> vec4" where
  "vec4_of_vec2 v z w = Vec4 (vec2_x v) (vec2_y v) z w"

definition vec4_xy :: "vec4 \<Rightarrow> vec2" where
  "vec4_xy p = Vec2 (vec4_x p) (vec4_y p)"

subsection \<open>The variables of one invocation\<close>

text \<open>
  The per-vertex output block has the member \<^verbatim>\<open>Position\<close> that the shader names; its
  other members are declared by the compiler, not by this repository, and are kept as
  the extension of the record. In the same way the extension of \<open>shader_state\<close> stands
  for every other variable an invocation could see.
\<close>

record gl_PerVertex =
  Position :: vec4

record 'o shader_state =
  glvert_VertexIndex :: int32
  out_uv :: vec2
  glvert_Output :: "'o gl_PerVertex_scheme"

subsection \<open>The shader\<close>

text \<open>The two assignments of \<^verbatim>\<open>main\<close>, one after the other; the second reads the
  \<^verbatim>\<open>out_uv\<close> that the first has written.\<close>

definition main :: "('o, 'm) shader_state_scheme \<Rightarrow> ('o, 'm) shader_state_scheme" where
  "main s =
    (let s1 = s\<lparr>out_uv :=
                 vec2_of_ints (push_bit 1 (glvert_VertexIndex s) AND 2)
                              (glvert_VertexIndex s AND 2)\<rparr>;
         s2 = s1\<lparr>glvert_Output := (glvert_Output s1)\<lparr>Position :=
                 vec4_of_vec2 (vec2_add_scalar (vec2_mul_scalar (out_uv s1) 2) (- 1)) 0 1\<rparr>\<rparr>
     in s2)"

text \<open>What the next pipeline stages receive from an invocation: the UV interpolant and
  the clip-space position.\<close>

definition outputs :: "('o, 'm) shader_state_scheme \<Rightarrow> vec2 \<times> vec4" where
  "outputs s = (out_uv s, Position (glvert_Output s))"

text \<open>One invocation with the built-in index \<open>i\<close>; \<open>s\<close> is whatever the other variables
  held before.\<close>

definition run :: "int32 \<Rightarrow> ('o, 'm) shader_state_scheme \<Rightarrow> vec2 \<times> vec4" where
  "run i s = outputs (main (s\<lparr>glvert_VertexIndex := i\<rparr>))"

text \<open>Concrete variables to start an invocation from: the outputs are not yet written
  when \<^verbatim>\<open>main\<close> starts; here they hold zeros, and there is no other variable.\<close>

definition zero_state :: "unit shader_state" where
  "zero_state =
     \<lparr>glvert_VertexIndex = 0, out_uv = Vec2 0 0, glvert_Output = \<lparr>Position = Vec4 0 0 0 0\<rparr>\<rparr>"

subsection \<open>A draw: several invocations\<close>

text \<open>
  The host runs the shader once per vertex. The invocations are modelled in the least
  favourable way for independence: one after the other on the same variables, so that
  each invocation starts from what the one before has left. The result is the list of
  outputs, one per index.
\<close>

fun invocations :: "int32 list \<Rightarrow> ('o, 'm) shader_state_scheme \<Rightarrow> (vec2 \<times> vec4) list" where
  "invocations [] s = []"
| "invocations (j # js) s =
     (let s' = main (s\<lparr>glvert_VertexIndex := j\<rparr>) in outputs s' # invocations js s')"

subsection \<open>The shader with its operations checked\<close>

text \<open>
  The only operation of \<^verbatim>\<open>main\<close> that the language leaves undefined on some operands
  is the shift: its count must be less than the width of the operand. The masks, the
  conversions to float, the product and the sum are defined on every operand, and the
  source has no division, no indexing and no branch. \<open>main_checked\<close> is \<open>main\<close> with
  the shift checked; a fault ends the invocation.
\<close>

datatype fault = ShiftCountOutOfRange

definition shift_left_checked :: "int32 \<Rightarrow> nat \<Rightarrow> fault + int32" where
  "shift_left_checked a n = (if n < 32 then Inr (push_bit n a) else Inl ShiftCountOutOfRange)"

definition main_checked ::
  "('o, 'm) shader_state_scheme \<Rightarrow> fault + ('o, 'm) shader_state_scheme" where
  "main_checked s =
    (case shift_left_checked (glvert_VertexIndex s) 1 of
       Inl e \<Rightarrow> Inl e
     | Inr sh \<Rightarrow>
        (let s1 = s\<lparr>out_uv := vec2_of_ints (sh AND 2) (glvert_VertexIndex s AND 2)\<rparr>;
             s2 = s1\<lparr>glvert_Output := (glvert_Output s1)\<lparr>Position :=
                 vec4_of_vec2 (vec2_add_scalar (vec2_mul_scalar (out_uv s1) 2) (- 1)) 0 1\<rparr>\<rparr>
         in Inr s2))"

subsection \<open>The derivation in the words of the specification\<close>

text \<open>
  The specification derives the UV coordinate from an unsigned integer of no stated
  width: \<open>a\<close> is the index shifted left by one bit, masked with 2; \<open>b\<close> is the index
  masked with 2; the UV coordinate is \<open>(a, b)\<close> as floating point. \<open>spec_uv\<close> follows
  these words on the natural numbers, where the shift loses no bit.
\<close>

definition spec_uv :: "nat \<Rightarrow> vec2" where
  "spec_uv index =
     (let a = push_bit 1 index AND 2;
          b = index AND 2
      in Vec2 (real a) (real b))"

subsection \<open>Plane geometry\<close>

text \<open>Twice the signed area of the triangle \<open>a\<close>, \<open>b\<close>, \<open>p\<close>: positive when \<open>p\<close> lies to
  the left of the line from \<open>a\<close> to \<open>b\<close>, zero when it lies on it.\<close>

definition edge :: "vec2 \<Rightarrow> vec2 \<Rightarrow> vec2 \<Rightarrow> real" where
  "edge a b p =
     (vec2_x b - vec2_x a) * (vec2_y p - vec2_y a) - (vec2_y b - vec2_y a) * (vec2_x p - vec2_x a)"

text \<open>The closed triangle (interior and boundary), for either orientation of its
  vertices.\<close>

definition in_triangle :: "vec2 \<Rightarrow> vec2 \<Rightarrow> vec2 \<Rightarrow> vec2 \<Rightarrow> bool" where
  "in_triangle a b c p \<longleftrightarrow>
     (0 \<le> edge a b p \<and> 0 \<le> edge b c p \<and> 0 \<le> edge c a p) \<or>
     (edge a b p \<le> 0 \<and> edge b c p \<le> 0 \<and> edge c a p \<le> 0)"

text \<open>The open triangle: the points of the triangle that are on none of its sides.\<close>

definition in_interior :: "vec2 \<Rightarrow> vec2 \<Rightarrow> vec2 \<Rightarrow> vec2 \<Rightarrow> bool" where
  "in_interior a b c p \<longleftrightarrow>
     (0 < edge a b p \<and> 0 < edge b c p \<and> 0 < edge c a p) \<or>
     (edge a b p < 0 \<and> edge b c p < 0 \<and> edge c a p < 0)"

text \<open>The closed square \<open>[lo, hi] \<times> [lo, hi]\<close>.\<close>

definition in_box :: "real \<Rightarrow> real \<Rightarrow> vec2 \<Rightarrow> bool" where
  "in_box lo hi p \<longleftrightarrow> lo \<le> vec2_x p \<and> vec2_x p \<le> hi \<and> lo \<le> vec2_y p \<and> vec2_y p \<le> hi"

text \<open>Clipping a region to the square keeps the points of the region inside it.\<close>

definition clip_to_box :: "real \<Rightarrow> real \<Rightarrow> vec2 set \<Rightarrow> vec2 set" where
  "clip_to_box lo hi R = {p \<in> R. in_box lo hi p}"

text \<open>The closed segment from \<open>a\<close> to \<open>b\<close>.\<close>

definition on_segment :: "vec2 \<Rightarrow> vec2 \<Rightarrow> vec2 \<Rightarrow> bool" where
  "on_segment a b p \<longleftrightarrow>
     edge a b p = 0 \<and>
     min (vec2_x a) (vec2_x b) \<le> vec2_x p \<and> vec2_x p \<le> max (vec2_x a) (vec2_x b) \<and>
     min (vec2_y a) (vec2_y b) \<le> vec2_y p \<and> vec2_y p \<le> max (vec2_y a) (vec2_y b)"

definition collinear3 :: "vec2 \<Rightarrow> vec2 \<Rightarrow> vec2 \<Rightarrow> bool" where
  "collinear3 a b c \<longleftrightarrow> edge a b c = 0"


section \<open>Bits of the index\<close>

lemma and2_cases: "(w :: int32) AND 2 = (if bit w 1 then 2 else 0)"
  by (rule bit_word_eqI) (auto simp: bit_simps)

lemma bit_times2:
  "bit (a * 2) n \<longleftrightarrow> possible_bit TYPE('a) n \<and> n \<noteq> 0 \<and> bit a (n - 1)"
  for a :: "'a::semiring_bits"
  using bit_double_iff [of a n] by (simp add: mult.commute)

lemma shl_and2_cases: "push_bit 1 (w :: int32) AND 2 = (if bit w 0 then 2 else 0)"
  by (rule bit_word_eqI) (auto simp: bit_simps bit_times2)

lemma nat_and2_cases: "(n :: nat) AND 2 = (if bit n 1 then 2 else 0)"
  by (rule bit_eqI) (auto simp: bit_simps)

lemma nat_shl_and2_cases: "push_bit 1 (n :: nat) AND 2 = (if bit n 0 then 2 else 0)"
  by (rule bit_eqI) (auto simp: bit_simps bit_times2)

lemma bit_mod4_0: "bit ((w :: int32) mod 4) 0 = bit w 0"
  using bit_take_bit_iff [of 2 w 0] by (simp add: take_bit_eq_mod)

lemma bit_mod4_1: "bit ((w :: int32) mod 4) 1 = bit w 1"
  using bit_take_bit_iff [of 2 w 1] by (simp add: take_bit_eq_mod)

lemma bit_and3_0: "bit ((w :: int32) AND 3) 0 = bit w 0"
  by (simp add: bit_simps)

lemma bit_and3_1: "bit ((w :: int32) AND 3) 1 = bit w 1"
  by (simp add: bit_simps)

text \<open>The same facts in the form the simplifier meets them.\<close>

lemma bit1_times2: "bit ((w :: int32) * 2) (Suc 0) = bit w 0"
  by (simp add: bit_times2)

lemma nat_bit1_times2: "bit ((n :: nat) * 2) (Suc 0) = bit n 0"
  by (simp add: bit_times2)

lemma and2_cases': "(w :: int32) AND 2 = (if bit w (Suc 0) then 2 else 0)"
  using and2_cases [of w] by simp

lemma nat_and2_cases': "(n :: nat) AND 2 = (if bit n (Suc 0) then 2 else 0)"
  using nat_and2_cases [of n] by simp

lemma bit_mod4_1': "bit ((w :: int32) mod 4) (Suc 0) = bit w (Suc 0)"
  using bit_mod4_1 [of w] by simp

lemma bit_and3_1': "bit ((w :: int32) AND 3) (Suc 0) = bit w (Suc 0)"
  using bit_and3_1 [of w] by simp

lemma float_of_int32_0: "float_of_int32 0 = 0"
  by (simp add: float_of_int32_def)

lemma float_of_int32_2: "float_of_int32 2 = 2"
  by (simp add: float_of_int32_def)

text \<open>The masked values are 0 or 2, so reading them as signed or as unsigned integers
  gives the same float.\<close>

lemma float_of_masked_unsigned:
  "float_of_int32 (w AND 2) = real (unat (w AND 2))"
  by (simp add: and2_cases float_of_int32_def)

section \<open>What one invocation computes\<close>

text \<open>The outputs as the source writes them, and then by the two low bits of the index.\<close>

lemma run_eq:
  "run i s =
     (Vec2 (float_of_int32 (push_bit 1 i AND 2)) (float_of_int32 (i AND 2)),
      Vec4 (float_of_int32 (push_bit 1 i AND 2) * 2 + - 1)
           (float_of_int32 (i AND 2) * 2 + - 1) 0 1)"
  by (simp add: run_def outputs_def main_def Let_def vec2_of_ints_def vec2_mul_scalar_def
      vec2_add_scalar_def vec4_of_vec2_def)

lemma run_cases:
  "run i s =
     (Vec2 (if bit i 0 then 2 else 0) (if bit i 1 then 2 else 0),
      Vec4 (if bit i 0 then 3 else - 1) (if bit i 1 then 3 else - 1) 0 1)"
  by (simp add: run_eq and2_cases' bit1_times2 float_of_int32_0 float_of_int32_2)

lemma run_0: "run 0 s = (Vec2 0 0, Vec4 (- 1) (- 1) 0 1)"
  by (simp add: run_cases)

lemma run_1: "run 1 s = (Vec2 2 0, Vec4 3 (- 1) 0 1)"
  by (simp add: run_cases)

lemma run_2: "run 2 s = (Vec2 0 2, Vec4 (- 1) 3 0 1)"
  by (simp add: run_cases)

lemma run_3: "run 3 s = (Vec2 2 2, Vec4 3 3 0 1)"
  by (simp add: run_cases)

lemma run_initial_irrelevant: "run i s = run i t"
  by (simp add: run_cases)

lemma main_values_small:
  assumes "a = push_bit 1 i AND 2 \<or> a = i AND 2"
  shows "float_of_int32 a \<in> {0, 2}"
    and "float_of_int32 a * 2 \<in> {0, 4}"
    and "float_of_int32 a * 2 + - 1 \<in> {- 1, 3}"
  using assms
  by (auto simp: and2_cases' bit1_times2 float_of_int32_0 float_of_int32_2 split: if_splits)

text \<open>A fault is never raised: the shift count is the constant 1.\<close>

lemma main_checked_eq: "main_checked s = Inr (main s)"
  by (simp add: main_checked_def shift_left_checked_def main_def Let_def)

section \<open>The two triangles\<close>

text \<open>The UV coordinates and the clip-space \<open>xy\<close> positions of the three vertices, and the
  half-planes that bound the triangles they span.\<close>

lemma uv_0: "fst (run 0 s) = Vec2 0 0"
  by (simp add: run_0)

lemma uv_1: "fst (run 1 s) = Vec2 2 0"
  by (simp add: run_1)

lemma uv_2: "fst (run 2 s) = Vec2 0 2"
  by (simp add: run_2)

lemma clip_xy_0: "vec4_xy (snd (run 0 s)) = Vec2 (- 1) (- 1)"
  by (simp add: run_0 vec4_xy_def)

lemma clip_xy_1: "vec4_xy (snd (run 1 s)) = Vec2 3 (- 1)"
  by (simp add: run_1 vec4_xy_def)

lemma clip_xy_2: "vec4_xy (snd (run 2 s)) = Vec2 (- 1) 3"
  by (simp add: run_2 vec4_xy_def)

lemma clip_triangle_iff:
  "in_triangle (Vec2 (- 1) (- 1)) (Vec2 3 (- 1)) (Vec2 (- 1) 3) p \<longleftrightarrow>
     - 1 \<le> vec2_x p \<and> - 1 \<le> vec2_y p \<and> vec2_x p + vec2_y p \<le> 2"
  by (cases p) (auto simp: in_triangle_def edge_def)

lemma uv_triangle_iff:
  "in_triangle (Vec2 0 0) (Vec2 2 0) (Vec2 0 2) p \<longleftrightarrow>
     0 \<le> vec2_x p \<and> 0 \<le> vec2_y p \<and> vec2_x p + vec2_y p \<le> 2"
  by (cases p) (auto simp: in_triangle_def edge_def)

text \<open>The unit square reaches the sides of the UV triangle: its corner \<open>(1, 1)\<close> is a
  point of the square and of the triangle, but not of the open triangle.\<close>

lemma unit_square_touches_boundary:
  "in_box 0 1 (Vec2 1 1) \<and> \<not> in_interior (Vec2 0 0) (Vec2 2 0) (Vec2 0 2) (Vec2 1 1)"
  by (simp add: in_box_def in_interior_def edge_def)

section \<open>The claims\<close>

text \<open>
  Claim C1. For the indices 0, 1 and 2 the shader produces exactly the table of the
  specification: index 0 gives UV (0,0) and position (-1,-1,0,1), index 1 gives UV (2,0)
  and position (3,-1,0,1), index 2 gives UV (0,2) and position (-1,3,0,1), whatever the
  variables held before the invocation. The equalities are exact.
\<close>

theorem output_table:
  "run 0 s = (Vec2 0 0, Vec4 (- 1) (- 1) 0 1) \<and>
   run 1 s = (Vec2 2 0, Vec4 3 (- 1) 0 1) \<and>
   run 2 s = (Vec2 0 2, Vec4 (- 1) 3 0 1)"
  by (simp add: run_0 run_1 run_2)

text \<open>
  Claim C2. The three clip-space \<open>xy\<close> positions are (-1,-1), (3,-1) and (-1,3); they
  are not collinear, and the triangle they span covers the box \<open>[-1,1] \<times> [-1,1]\<close>:
  every point of the box lies inside or on the boundary of the triangle, so that the
  triangle clipped to the box is the whole box. The triangle is not the whole plane:
  the point (3,3) is outside it. The witness checks the four corners of the box and its
  centre.
\<close>

theorem triangle_covers_clip_box:
  "vec4_xy (snd (run 0 s)) = Vec2 (- 1) (- 1) \<and>
   vec4_xy (snd (run 1 s)) = Vec2 3 (- 1) \<and>
   vec4_xy (snd (run 2 s)) = Vec2 (- 1) 3 \<and>
   \<not> collinear3 (vec4_xy (snd (run 0 s))) (vec4_xy (snd (run 1 s))) (vec4_xy (snd (run 2 s))) \<and>
   (\<forall>p. in_box (- 1) 1 p \<longrightarrow>
        in_triangle (vec4_xy (snd (run 0 s))) (vec4_xy (snd (run 1 s)))
          (vec4_xy (snd (run 2 s))) p) \<and>
   clip_to_box (- 1) 1
     {p. in_triangle (vec4_xy (snd (run 0 s))) (vec4_xy (snd (run 1 s)))
          (vec4_xy (snd (run 2 s))) p} = {p. in_box (- 1) 1 p} \<and>
   \<not> in_triangle (vec4_xy (snd (run 0 s))) (vec4_xy (snd (run 1 s)))
          (vec4_xy (snd (run 2 s))) (Vec2 3 3)"
proof -
  have "\<not> collinear3 (Vec2 (- 1) (- 1)) (Vec2 3 (- 1)) (Vec2 (- 1) 3)"
    by (simp add: collinear3_def edge_def)
  moreover have "in_box (- 1) 1 p \<Longrightarrow>
      in_triangle (Vec2 (- 1) (- 1)) (Vec2 3 (- 1)) (Vec2 (- 1) 3) p" for p
    by (simp add: clip_triangle_iff in_box_def)
  moreover have "\<not> in_triangle (Vec2 (- 1) (- 1)) (Vec2 3 (- 1)) (Vec2 (- 1) 3) (Vec2 3 3)"
    by (simp add: clip_triangle_iff)
  ultimately show ?thesis
    unfolding clip_xy_0 clip_xy_1 clip_xy_2 clip_to_box_def by blast
qed

theorem triangle_covers_clip_box_witness:
  "vec4_xy (snd (run 0 zero_state)) = Vec2 (- 1) (- 1) \<and>
   vec4_xy (snd (run 1 zero_state)) = Vec2 3 (- 1) \<and>
   vec4_xy (snd (run 2 zero_state)) = Vec2 (- 1) 3 \<and>
   list_all (\<lambda>p. in_box (- 1) 1 p \<and>
        in_triangle (vec4_xy (snd (run 0 zero_state))) (vec4_xy (snd (run 1 zero_state)))
          (vec4_xy (snd (run 2 zero_state))) p)
     [Vec2 (- 1) (- 1), Vec2 1 (- 1), Vec2 (- 1) 1, Vec2 1 1, Vec2 0 0]"
proof -
  note t = triangle_covers_clip_box [of zero_state]
  from t have cover: "in_box (- 1) 1 p \<Longrightarrow>
      in_triangle (vec4_xy (snd (run 0 zero_state))) (vec4_xy (snd (run 1 zero_state)))
        (vec4_xy (snd (run 2 zero_state))) p" for p
    by blast
  have "in_box (- 1) 1 p" if "p \<in> set [Vec2 (- 1) (- 1), Vec2 1 (- 1), Vec2 (- 1) 1, Vec2 1 1, Vec2 0 0]" for p
    using that by (auto simp: in_box_def)
  with cover t show ?thesis
    unfolding list_all_iff by blast
qed

text \<open>
  Claim C3. For every index in \<open>{0, 1, 2}\<close> the clip-space position has
  \<open>xy = UV * 2 - 1\<close>, \<open>z = 0\<close> and \<open>w = 1\<close>; the UV components lie in \<open>[0, 2]\<close> and
  the \<open>xy\<close> components of the position in \<open>[-1, 3]\<close>.
\<close>

theorem position_from_uv:
  assumes "i \<in> {0, 1, 2}"
  shows "vec4_x (snd (run i s)) = vec2_x (fst (run i s)) * 2 - 1 \<and>
         vec4_y (snd (run i s)) = vec2_y (fst (run i s)) * 2 - 1 \<and>
         vec4_z (snd (run i s)) = 0 \<and>
         vec4_w (snd (run i s)) = 1 \<and>
         vec2_x (fst (run i s)) \<in> {0 .. 2} \<and> vec2_y (fst (run i s)) \<in> {0 .. 2} \<and>
         vec4_x (snd (run i s)) \<in> {- 1 .. 3} \<and> vec4_y (snd (run i s)) \<in> {- 1 .. 3}"
  by (simp add: run_cases)

theorem position_from_uv_witness:
  "(1 :: int32) \<in> {0, 1, 2} \<and>
   vec4_x (snd (run 1 zero_state)) = vec2_x (fst (run 1 zero_state)) * 2 - 1 \<and>
   vec4_y (snd (run 1 zero_state)) = vec2_y (fst (run 1 zero_state)) * 2 - 1 \<and>
   vec4_z (snd (run 1 zero_state)) = 0 \<and>
   vec4_w (snd (run 1 zero_state)) = 1 \<and>
   vec2_x (fst (run 1 zero_state)) = 2 \<and> vec4_x (snd (run 1 zero_state)) = 3"
  using position_from_uv [of 1 zero_state]
  by (simp add: run_eq float_of_int32_def)

text \<open>
  Claim C4. The UV coordinate of the shader is the one that the derivation of the
  specification gives: \<open>a\<close> is the index shifted left by one bit and masked with 2, \<open>b\<close>
  is the index masked with 2, and the UV coordinate is \<open>(a, b)\<close> as floating point. The
  32-bit shift and the signed conversion of the source agree with the derivation on
  unbounded unsigned integers at every index; for the indices 0, 1 and 2 the UV
  coordinates are (0,0), (2,0) and (0,2).
\<close>

theorem uv_refines_spec:
  "fst (run i s) = spec_uv (unat i) \<and>
   fst (run i s) = vec2_of_ints (push_bit 1 i AND 2) (i AND 2) \<and>
   fst (run 0 s) = Vec2 0 0 \<and> fst (run 1 s) = Vec2 2 0 \<and> fst (run 2 s) = Vec2 0 2 \<and>
   spec_uv 0 = Vec2 0 0 \<and> spec_uv 1 = Vec2 2 0 \<and> spec_uv 2 = Vec2 0 2"
  by (simp add: run_cases spec_uv_def nat_and2_cases' nat_bit1_times2 bit_unsigned_iff
      vec2_of_ints_def and2_cases' bit1_times2 float_of_int32_0 float_of_int32_2)

text \<open>
  Claim C5. For every index in \<open>{0, 1, 2}\<close> the outputs are a function of the index
  alone: two invocations with the same index give the same UV coordinate and position
  whatever the variables held before, any number of invocations with one index, even
  run one after the other on the same variables, give the same outputs every time, and
  in a sequence of invocations each output is the one its own index gives, whatever
  the other invocations were.
\<close>

theorem invocations_independent:
  assumes "i \<in> {0, 1, 2}" and "set js \<subseteq> {0, 1, 2}"
  shows "run i s = run i t \<and>
         invocations (replicate n i) s = replicate n (run i t) \<and>
         invocations js s = map (\<lambda>j. run j t) js"
proof -
  have step: "invocations ks u = map (\<lambda>j. run j t) ks" for ks and u :: "('a, 'b) shader_state_scheme"
  proof (induction ks arbitrary: u)
    case Nil
    show ?case by simp
  next
    case (Cons k ks)
    have "outputs (main (u\<lparr>glvert_VertexIndex := k\<rparr>)) = run k t"
      unfolding run_def [symmetric] by (rule run_initial_irrelevant)
    with Cons.IH show ?case by (simp add: Let_def)
  qed
  show ?thesis
    using step [of "replicate n i" s] step [of js s] run_initial_irrelevant [of i s t]
    by simp
qed

theorem invocations_independent_witness:
  "(2 :: int32) \<in> {0, 1, 2} \<and> set [0, 1, 2 :: int32] \<subseteq> {0, 1, 2} \<and>
   run 2 (main (zero_state\<lparr>glvert_VertexIndex := 1\<rparr>)) = run 2 zero_state \<and>
   invocations (replicate 1000 2) (main (zero_state\<lparr>glvert_VertexIndex := 1\<rparr>)) =
     replicate 1000 (run 2 zero_state) \<and>
   invocations [0, 1, 2] (main (zero_state\<lparr>glvert_VertexIndex := 1\<rparr>)) =
     [run 0 zero_state, run 1 zero_state, run 2 zero_state]"
  using invocations_independent [of 2 "[0, 1, 2]" "main (zero_state\<lparr>glvert_VertexIndex := 1\<rparr>)"
      zero_state 1000]
  by simp

text \<open>
  Claim C6. The UV coordinates of the three vertices are (0,0), (2,0) and (0,2); they
  are not collinear. The hypotenuse of their triangle, the segment from (2,0) to (0,2),
  passes through the far corner (1,1) of the unit square, and the triangle strictly
  contains the unit square: every point of the square is a point of the triangle, and
  the triangle has a point that is not in the square. (The containment is in the closed
  triangle: by \<open>unit_square_touches_boundary\<close> the corner (1,1) lies on the hypotenuse,
  as the claim says itself.)
\<close>

theorem uv_triangle_contains_unit_square:
  "fst (run 0 s) = Vec2 0 0 \<and> fst (run 1 s) = Vec2 2 0 \<and> fst (run 2 s) = Vec2 0 2 \<and>
   \<not> collinear3 (fst (run 0 s)) (fst (run 1 s)) (fst (run 2 s)) \<and>
   on_segment (fst (run 1 s)) (fst (run 2 s)) (Vec2 1 1) \<and>
   (\<forall>p. in_box 0 1 p \<longrightarrow>
        in_triangle (fst (run 0 s)) (fst (run 1 s)) (fst (run 2 s)) p) \<and>
   (\<exists>p. in_triangle (fst (run 0 s)) (fst (run 1 s)) (fst (run 2 s)) p \<and> \<not> in_box 0 1 p)"
proof -
  have "\<not> collinear3 (Vec2 0 0) (Vec2 2 0) (Vec2 0 2)"
    by (simp add: collinear3_def edge_def)
  moreover have "on_segment (Vec2 2 0) (Vec2 0 2) (Vec2 1 1)"
    by (simp add: on_segment_def edge_def)
  moreover have "in_box 0 1 p \<Longrightarrow> in_triangle (Vec2 0 0) (Vec2 2 0) (Vec2 0 2) p" for p
    by (simp add: uv_triangle_iff in_box_def)
  moreover have "in_triangle (Vec2 0 0) (Vec2 2 0) (Vec2 0 2) (Vec2 2 0)"
    and "\<not> in_box 0 1 (Vec2 2 0)"
    by (simp_all add: uv_triangle_iff in_box_def)
  ultimately show ?thesis
    unfolding uv_0 uv_1 uv_2 by blast
qed

theorem uv_triangle_contains_unit_square_witness:
  "fst (run 0 zero_state) = Vec2 0 0 \<and> fst (run 1 zero_state) = Vec2 2 0 \<and>
   fst (run 2 zero_state) = Vec2 0 2 \<and>
   in_box 0 1 (Vec2 1 1) \<and>
   in_triangle (fst (run 0 zero_state)) (fst (run 1 zero_state)) (fst (run 2 zero_state)) (Vec2 1 1) \<and>
   on_segment (fst (run 1 zero_state)) (fst (run 2 zero_state)) (Vec2 1 1)"
proof -
  note t = uv_triangle_contains_unit_square [of zero_state]
  have "in_box 0 1 (Vec2 1 1)"
    by (simp add: in_box_def)
  with t show ?thesis
    by blast
qed

text \<open>
  Claim C7. An invocation writes exactly two outputs, the UV interpolant and the
  clip-space position, and nothing else.
  Both are written: the variables after \<^verbatim>\<open>main\<close> are the variables before it with
  \<^verbatim>\<open>out_uv\<close> and \<^verbatim>\<open>Position\<close> replaced by the values that the index alone determines
  (those of an invocation with the same index from any other variables \<open>t\<close>), so what
  the two outputs held before is overwritten and has no influence; the values are the
  ones the two assignments of the source compute, and at index 1 from zeroed outputs
  both outputs change.
  Nothing else is written: the index, the other members of the output block and every
  other variable are unchanged.
\<close>

theorem main_frame:
  "main s = s\<lparr>out_uv := fst (run (glvert_VertexIndex s) t),
              glvert_Output := (glvert_Output s)\<lparr>Position := snd (run (glvert_VertexIndex s) t)\<rparr>\<rparr> \<and>
   outputs (main (s\<lparr>out_uv := u, glvert_Output := (glvert_Output s)\<lparr>Position := p\<rparr>\<rparr>)) =
     outputs (main s) \<and>
   out_uv (main s) =
     vec2_of_ints (push_bit 1 (glvert_VertexIndex s) AND 2) (glvert_VertexIndex s AND 2) \<and>
   Position (glvert_Output (main s)) =
     vec4_of_vec2 (vec2_add_scalar (vec2_mul_scalar (out_uv (main s)) 2) (- 1)) 0 1 \<and>
   main s = s\<lparr>out_uv := fst (outputs (main s)),
              glvert_Output := (glvert_Output s)\<lparr>Position := snd (outputs (main s))\<rparr>\<rparr> \<and>
   glvert_VertexIndex (main s) = glvert_VertexIndex s \<and>
   shader_state.more (main s) = shader_state.more s \<and>
   gl_PerVertex.more (glvert_Output (main s)) = gl_PerVertex.more (glvert_Output s) \<and>
   out_uv (main (zero_state\<lparr>glvert_VertexIndex := 1\<rparr>)) \<noteq> out_uv zero_state \<and>
   Position (glvert_Output (main (zero_state\<lparr>glvert_VertexIndex := 1\<rparr>))) \<noteq>
     Position (glvert_Output zero_state)"
  by (simp add: run_def main_def outputs_def Let_def zero_state_def vec2_of_ints_def
      vec2_mul_scalar_def vec2_add_scalar_def vec4_of_vec2_def float_of_int32_def)

text \<open>
  Claim C8. For every index in \<open>{0, 1, 2}\<close> the computation cannot fail: the shader
  with its operations checked raises no fault and ends in the variables that \<^verbatim>\<open>main\<close>
  computes, so a UV coordinate and a position are always produced.
\<close>

theorem main_cannot_fail:
  assumes "i \<in> {0, 1, 2}"
  shows "main_checked (s\<lparr>glvert_VertexIndex := i\<rparr>) = Inr (main (s\<lparr>glvert_VertexIndex := i\<rparr>)) \<and>
         (\<exists>uv pos. run i s = (uv, pos))"
  by (simp add: main_checked_eq run_cases)

theorem main_cannot_fail_witness:
  "(2 :: int32) \<in> {0, 1, 2} \<and>
   main_checked (zero_state\<lparr>glvert_VertexIndex := 2\<rparr>) =
     Inr \<lparr>glvert_VertexIndex = 2, out_uv = Vec2 0 2,
          glvert_Output = \<lparr>Position = Vec4 (- 1) 3 0 1\<rparr>\<rparr>"
  using main_cannot_fail [of 2 zero_state]
  by (simp add: main_def Let_def zero_state_def vec2_of_ints_def vec2_mul_scalar_def
      vec2_add_scalar_def vec4_of_vec2_def float_of_int32_def)

text \<open>
  Claim C9. For every 32-bit index, also outside \<open>{0, 1, 2}\<close>, the outputs depend only
  on the two low-order bits of the index: index \<open>k\<close> gives the outputs of \<open>k mod 4\<close>,
  each UV component is 0 or 2, each of the \<open>xy\<close> components of the position is -1 or 3,
  \<open>z = 0\<close> and \<open>w = 1\<close>; index 3 gives UV (2,2) and position (3,3,0,1).
\<close>

theorem low_two_bits:
  "run k s = run (k mod 4) t \<and>
   run k s = run (k AND 3) t \<and>
   vec2_x (fst (run k s)) \<in> {0, 2} \<and> vec2_y (fst (run k s)) \<in> {0, 2} \<and>
   vec4_x (snd (run k s)) \<in> {- 1, 3} \<and> vec4_y (snd (run k s)) \<in> {- 1, 3} \<and>
   vec4_z (snd (run k s)) = 0 \<and> vec4_w (snd (run k s)) = 1 \<and>
   run 3 s = (Vec2 2 2, Vec4 3 3 0 1)"
  by (simp add: run_cases bit_mod4_0 bit_mod4_1' bit_and3_0 bit_and3_1')


end
